theory Spec2Isabelle
  imports Complex_Main
begin

section \<open>Exceptions\<close>

text \<open>
  The exceptions the modelled code paths raise or catch.  \<open>HTTPException\<close> carries the
  status code and the detail of FastAPI's exception; a detail is a plain message, a
  message with an interpolated exception (\<^verbatim>\<open>f"...{str(e)}"\<close>), a message with an
  interpolated amount, or the mobile API's code/message pair.  \<open>RequestValidationError\<close>
  is what FastAPI raises when a declared constraint (\<^verbatim>\<open>gt=0\<close>) fails.  The blockchain
  errors are the classes of \<^verbatim>\<open>blockchain.py\<close>; \<open>TimeExhausted\<close> is web3's timeout
  exception; \<open>Overflow\<close>, \<open>DivisionByZero\<close> and \<open>InvalidOperation\<close> are the trapped
  signals of Python's default decimal context; \<open>NameError\<close>, \<open>TypeError\<close> and
  \<open>AttributeError\<close> are the interpreter's own; \<open>RpcError\<close> stands for any other
  exception of the RPC transport or of contract-call decoding.
\<close>

datatype exn =
    HTTPException nat detail
  | RequestValidationError
  | BlockchainError string
  | TransactionFailedError string
  | ContractCallError string
  | InsufficientFundsError string
  | TimeExhausted
  | Overflow
  | DivisionByZero
  | InvalidOperation
  | NameError string
  | TypeError
  | AttributeError string
  | RpcError string
and detail =
    Msg string
  | MsgExn string exn
  | MsgAmount string rat
  | Coded string string

section \<open>Decimal arithmetic of the default context\<close>

text \<open>
  A finite \<^verbatim>\<open>decimal.Decimal\<close> is modelled by its numerical value, a rational of the form
  \<open>c * 10 powi e\<close>.  Python's \<^verbatim>\<open>==\<close> and \<^verbatim>\<open><\<close> on decimals compare numerical values, so
  nothing the modelled code observes depends on the representation.  Constructing a
  decimal (from a string or an int) is exact; every arithmetic operation computes the
  exact result and then rounds it to the context: 28 significant digits, half-even,
  exponents limited by \<open>Emax = 999999\<close> and \<open>Emin = -999999\<close>, with \<open>Overflow\<close> trapped
  and underflow silent.
\<close>

definition prec :: nat where
  "prec = 28"

definition emax :: int where
  "emax = 999999"

definition emin :: int where
  "emin = - 999999"

definition etiny :: int where
  "etiny = emin - (int prec - 1)"

text \<open>Number of decimal digits of a non-negative coefficient (\<^verbatim>\<open>len(str(n))\<close>).\<close>

function ndigits :: "int \<Rightarrow> nat" where
  "ndigits n = (if n < 10 then 1 else Suc (ndigits (n div 10)))"
  by pat_completeness auto
termination
  by (relation "measure (\<lambda>n. nat n)") auto

declare ndigits.simps [simp del]

text \<open>
  The adjusted exponent of a non-zero value \<open>x\<close>: the exponent of its leading digit, that
  is the \<open>e\<close> with \<open>10 powi e \<le> \<bar>x\<bar> < 10 powi (e + 1)\<close>.  For \<open>x = p / q\<close> it is
  \<open>ndigits p - ndigits q\<close> or one less.
\<close>

definition adjusted :: "rat \<Rightarrow> int" where
  "adjusted x =
     (let (p, q) = quotient_of x;
          e0 = int (ndigits \<bar>p\<bar>) - int (ndigits q)
      in if 10 powi e0 \<le> \<bar>x\<bar> then e0 else e0 - 1)"

definition round_half_even :: "rat \<Rightarrow> int" where
  "round_half_even y =
     (let f = \<lfloor>y\<rfloor>; d = y - of_int f
      in if d < 1 / 2 then f
         else if 1 / 2 < d then f + 1
         else if even f then f else f + 1)"

text \<open>
  \<open>dec_fix\<close> is the context's rounding of an exact result (\<^verbatim>\<open>Decimal._fix\<close>): the quantum is
  \<open>10 powi (adjusted x - (prec - 1))\<close>, not below \<open>10 powi etiny\<close> for subnormal values.
\<close>

definition dec_fix :: "rat \<Rightarrow> exn + rat" where
  "dec_fix x =
     (if x = 0 then Inr 0
      else
        let qe = max (adjusted x - (int prec - 1)) etiny;
            r = of_int (round_half_even (x / 10 powi qe)) * 10 powi qe
        in if r \<noteq> 0 \<and> emax < adjusted r then Inl Overflow else Inr r)"

definition dec_mul :: "rat \<Rightarrow> rat \<Rightarrow> exn + rat" where
  "dec_mul a b = dec_fix (a * b)"

definition dec_div :: "rat \<Rightarrow> rat \<Rightarrow> exn + rat" where
  "dec_div a b =
     (if b = 0 then (if a = 0 then Inl InvalidOperation else Inl DivisionByZero)
      else dec_fix (a / b))"



text \<open>\<^verbatim>\<open>int(d)\<close> of a decimal truncates toward zero.\<close>

definition py_int :: "rat \<Rightarrow> int" where
  "py_int r = (if 0 \<le> r then \<lfloor>r\<rfloor> else \<lceil>r\<rceil>)"

section \<open>Unit conversion (\<^verbatim>\<open>BlockchainClient.to_wei\<close>, \<^verbatim>\<open>from_wei\<close>)\<close>

text \<open>
  \<^verbatim>\<open>to_wei(amount, decimals) = int(amount * (10 ** decimals))\<close> and
  \<^verbatim>\<open>from_wei(amount, decimals) = Decimal(amount) / (10 ** decimals)\<close>.
  For a negative \<^verbatim>\<open>decimals\<close> the power \<^verbatim>\<open>10 ** decimals\<close> is a float, and a decimal
  combined with a float raises \<open>TypeError\<close>.
\<close>

definition to_wei :: "rat \<Rightarrow> int \<Rightarrow> exn + int" where
  "to_wei amount decimals =
     (if decimals < 0 then Inl TypeError
      else case dec_mul amount (10 ^ nat decimals) of
             Inl e \<Rightarrow> Inl e
           | Inr r \<Rightarrow> Inr (py_int r))"

definition from_wei :: "int \<Rightarrow> int \<Rightarrow> exn + rat" where
  "from_wei amount decimals =
     (if decimals < 0 then Inl TypeError
      else dec_div (of_int amount) (10 ^ nat decimals))"



definition round_trip :: "rat \<Rightarrow> int \<Rightarrow> exn + rat" where
  "round_trip x decimals =
     (case to_wei x decimals of Inl e \<Rightarrow> Inl e | Inr w \<Rightarrow> from_wei w decimals)"

section \<open>The ledger: \<^verbatim>\<open>models.py\<close>\<close>

text \<open>
  The enums and the tables of \<^verbatim>\<open>models.py\<close>.  A table is the list of its rows in
  insertion order.  Columns that no modelled route reads or writes (names, descriptions,
  e-mail, creation and update timestamps, block number, gas, error message) are left
  out.  Amount columns hold decimals.  The arithmetic of the routes that write them
  (\<^verbatim>\<open>+=\<close>, \<^verbatim>\<open>-=\<close>, and the difference of \<^verbatim>\<open>total_deposits\<close> and \<^verbatim>\<open>total_allocated\<close>) is
  that of the decimal context, \<open>dec_add\<close> and \<open>dec_sub\<close>: a sum or difference of more
  than 28 significant digits is rounded.  Comparison (\<^verbatim>\<open><\<close>) is exact, and a column
  stores the value it is given.
\<close>

datatype TransactionType = DEPOSIT | WITHDRAW | ALLOCATE | DEALLOCATE | YIELD

datatype TransactionStatus = PENDING | PROCESSING | COMPLETED | FAILED | CANCELLED

datatype WithdrawalRequestStatus = QUEUED | READY | PROCESSED | WR_CANCELLED





record Transaction =
  t_id :: nat
  t_vault_id :: nat
  t_user_id :: "nat option"
  tx_type :: TransactionType
  t_status :: TransactionStatus
  t_amount :: rat
  t_tx_hash :: "string option"
  from_address :: string
  to_address :: string








section \<open>The blockchain client: \<^verbatim>\<open>blockchain.py\<close>\<close>

text \<open>
  The node and the web3 library are outside the repository.  What they answer is a
  parameter of the model: a record of the answers web3 gives to the calls the client
  makes, each either a value or a raised exception.  \<open>call_balances v u\<close> is
  \<^verbatim>\<open>vault.functions.balances(u).call()\<close> on the vault at \<open>v\<close>, \<open>call_balanceOf t u\<close> is
  \<^verbatim>\<open>token.functions.balanceOf(u).call()\<close> on the token at \<open>t\<close>; a failing checksum
  conversion of an address is one of the exceptions such a call can answer with.
\<close>

datatype tx_value = IntV int | StrV string

record receipt =
  transactionHash :: string
  rc_status :: int
  blockNumber :: int
  gasUsed :: int
  contractAddress :: "string option"
  rc_logs :: "string list"

record Web3 =
  call_balances :: "string \<Rightarrow> string \<Rightarrow> exn + int"
  call_balanceOf :: "string \<Rightarrow> string \<Rightarrow> exn + int"
  gas_price :: "exn + int"
  sign_transaction :: "(string \<rightharpoonup> tx_value) \<Rightarrow> string \<Rightarrow> exn + string"
  send_raw_transaction :: "string \<Rightarrow> exn + string"
  wait_for_transaction_receipt :: "string \<Rightarrow> nat \<Rightarrow> exn + receipt"

text \<open>
  The JSON-RPC requests a client has issued, in order.  \<open>Eth_call c f\<close> is a read of
  function \<open>f\<close> of the contract at \<open>c\<close>; \<open>Eth_sendRawTransaction\<close> is the broadcast of a
  signed transaction, the only request that changes the chain.
\<close>

datatype rpc =
    Eth_call string string
  | Eth_gasPrice
  | Eth_sendRawTransaction string
  | Eth_getTransactionReceipt string

record BlockchainClient =
  private_key :: "string option"
  chain_id :: int
  w3 :: Web3
  rpc_calls :: "rpc list"

record TxReceipt =
  tx_hash :: string
  status :: bool
  block_number :: int
  gas_used :: int
  contract_address :: "string option"
  logs :: "string list"



text \<open>
  \<^verbatim>\<open>_sign_and_send_transaction\<close> (an Isabelle name cannot begin with an underscore).
  The transaction is the dict the caller built.  \<^verbatim>\<open>not self.private_key\<close> holds for \<^verbatim>\<open>None\<close> and for the
  empty string.  Only \<open>TimeExhausted\<close> is caught around the wait for the receipt;
  every other exception propagates as it is.
\<close>

definition sign_and_send_transaction ::
  "BlockchainClient \<Rightarrow> (string \<rightharpoonup> tx_value) \<Rightarrow> (exn + TxReceipt) \<times> BlockchainClient" where
  "sign_and_send_transaction self tx =
     (case private_key self of
        None \<Rightarrow> (Inl (BlockchainError ''Private key not configured''), self)
      | Some key \<Rightarrow>
          if key = [] then (Inl (BlockchainError ''Private key not configured''), self)
          else
            let need_price = (tx ''maxFeePerGas'' = None \<and> tx ''gasPrice'' = None);
                self1 = (if need_price
                         then self\<lparr>rpc_calls := rpc_calls self @ [Eth_gasPrice]\<rparr> else self)
            in case (if need_price
                     then (case gas_price (w3 self) of
                             Inl e \<Rightarrow> Inl e
                           | Inr g \<Rightarrow> Inr (tx(''gasPrice'' \<mapsto> IntV g)))
                     else Inr tx) of
                 Inl e \<Rightarrow> (Inl e, self1)
               | Inr tx1 \<Rightarrow>
                   (case sign_transaction (w3 self) tx1 key of
                      Inl e \<Rightarrow> (Inl e, self1)
                    | Inr signed \<Rightarrow>
                        let self2 = self1\<lparr>rpc_calls :=
                                      rpc_calls self1 @ [Eth_sendRawTransaction signed]\<rparr>
                        in case send_raw_transaction (w3 self) signed of
                             Inl e \<Rightarrow> (Inl e, self2)
                           | Inr h \<Rightarrow>
                               let self3 = self2\<lparr>rpc_calls :=
                                             rpc_calls self2 @ [Eth_getTransactionReceipt h]\<rparr>
                               in case wait_for_transaction_receipt (w3 self) h 120 of
                                    Inl TimeExhausted \<Rightarrow>
                                      (Inl (TransactionFailedError ''Transaction timed out''), self3)
                                  | Inl e \<Rightarrow> (Inl e, self3)
                                  | Inr r \<Rightarrow>
                                      (Inr \<lparr>tx_hash = transactionHash r,
                                            status = (rc_status r = 1),
                                            block_number = blockNumber r,
                                            gas_used = gasUsed r,
                                            contract_address = contractAddress r,
                                            logs = rc_logs r\<rparr>, self3)))"

text \<open>A client has submitted a transaction when it has issued a broadcast.\<close>

fun is_broadcast :: "rpc \<Rightarrow> bool" where
  "is_broadcast (Eth_sendRawTransaction s) = True"
| "is_broadcast r = False"

definition submitted :: "BlockchainClient \<Rightarrow> bool" where
  "submitted self = list_ex is_broadcast (rpc_calls self)"

section \<open>Vault routes: \<^verbatim>\<open>routes/vault.py\<close>\<close>













section \<open>Protocol routes: \<^verbatim>\<open>routes/protocol.py\<close>\<close>





section \<open>Mobile withdrawal estimate: \<^verbatim>\<open>routes/mobile.py\<close>\<close>





section \<open>Ledger invariants\<close>








section \<open>Example states\<close>



text \<open>
  Two nodes.  The live one reports a vault balance of 60000 for every user and 400000
  units of the asset held by every account (in minor units), signs and broadcasts, and
  then lets the wait for the receipt run out.  The other one is unreachable: every
  request raises.  A client starts with no request issued.
\<close>

definition web3_live :: Web3 where
  "web3_live =
     \<lparr>call_balances = (\<lambda>v u. Inr 60000000000),
      call_balanceOf = (\<lambda>t u. Inr 400000000000),
      gas_price = Inr 1,
      sign_transaction = (\<lambda>tx key. Inr ''signed''),
      send_raw_transaction = (\<lambda>raw. Inr ''0xhash''),
      wait_for_transaction_receipt = (\<lambda>h timeout. Inl TimeExhausted)\<rparr>"


definition client_of :: "Web3 \<Rightarrow> BlockchainClient" where
  "client_of w = \<lparr>private_key = Some ''key'', chain_id = 1, w3 = w, rpc_calls = []\<rparr>"

section \<open>Decimal context: exact results\<close>

lemma ndigits_lower: "0 < n \<Longrightarrow> 10 ^ (ndigits n - 1) \<le> n"
proof (induction n rule: ndigits.induct)
  case (1 n)
  show ?case
  proof (cases "n < 10")
    case True
    with "1.prems" show ?thesis by (simp add: ndigits.simps [of n])
  next
    case False
    then have pos: "0 < n div 10" by simp
    from "1.IH" [OF False pos] have "10 ^ (ndigits (n div 10) - 1) \<le> n div 10" .
    then have "10 * 10 ^ (ndigits (n div 10) - 1) \<le> 10 * (n div 10)" by simp
    also have "\<dots> \<le> n" by simp
    finally have le: "10 * 10 ^ (ndigits (n div 10) - 1) \<le> n" .
    have "0 < ndigits (n div 10)" by (simp add: ndigits.simps [of "n div 10"])
    then have "(10::int) ^ ndigits (n div 10) = 10 * 10 ^ (ndigits (n div 10) - 1)"
      by (cases "ndigits (n div 10)") simp_all
    with le False show ?thesis by (simp add: ndigits.simps [of n])
  qed
qed

lemma ndigits_upper: "n < 10 ^ ndigits n"
proof (induction n rule: ndigits.induct)
  case (1 n)
  show ?case
  proof (cases "n < 10")
    case True
    then show ?thesis by (simp add: ndigits.simps [of n])
  next
    case False
    from "1.IH" [OF False] have "n div 10 < 10 ^ ndigits (n div 10)" .
    then have "n div 10 + 1 \<le> 10 ^ ndigits (n div 10)" by simp
    then have "10 * (n div 10 + 1) \<le> 10 * 10 ^ ndigits (n div 10)" by simp
    moreover have "n < 10 * (n div 10 + 1)" by simp
    ultimately have "n < 10 * 10 ^ ndigits (n div 10)" by linarith
    with False show ?thesis by (simp add: ndigits.simps [of n])
  qed
qed

lemma adjusted_lower:
  assumes "x \<noteq> 0"
  shows "10 powi adjusted x \<le> \<bar>x\<bar>"
proof -
  obtain p q where pq: "quotient_of x = (p, q)" by (cases "quotient_of x")
  then have q: "0 < q" and x: "x = of_int p / of_int q"
    by (simp_all add: quotient_of_denom_pos quotient_of_div)
  from assms x have p: "p \<noteq> 0" by auto
  define a where "a = ndigits \<bar>p\<bar>"
  define b where "b = ndigits q"
  show ?thesis
  proof (cases "10 powi (int a - int b) \<le> \<bar>x\<bar>")
    case True
    then show ?thesis by (simp add: adjusted_def pq a_def b_def)
  next
    case False
    have a1: "0 < a" by (simp add: a_def ndigits.simps [of "\<bar>p\<bar>"])
    have "(10::int) ^ (a - 1) \<le> \<bar>p\<bar>" unfolding a_def using p by (intro ndigits_lower) simp
    then have lo: "(10::rat) ^ (a - 1) \<le> of_int \<bar>p\<bar>"
      by (metis of_int_le_iff of_int_numeral of_int_power)
    have "q < 10 ^ b" unfolding b_def by (rule ndigits_upper)
    then have hi: "(of_int q :: rat) < 10 ^ b"
      by (metis of_int_less_iff of_int_numeral of_int_power)
    have qpos: "(0::rat) < of_int q" using q by simp
    have "int a - int b - 1 = int (a - 1) - int b" using a1 by simp
    then have "10 powi (int a - int b - 1) = (10::rat) powi (int (a - 1) - int b)"
      by (simp only:)
    also have "\<dots> = (10::rat) ^ (a - 1) / 10 ^ b"
      by (subst power_int_diff) simp_all
    finally have "10 powi (int a - int b - 1) = (10::rat) ^ (a - 1) / 10 ^ b" .
    also have "\<dots> \<le> of_int \<bar>p\<bar> / 10 ^ b"
      using lo by (simp add: divide_right_mono)
    also have "\<dots> \<le> of_int \<bar>p\<bar> / of_int q"
      using hi qpos by (intro divide_left_mono) (simp_all add: less_imp_le)
    also have "\<dots> = \<bar>x\<bar>" using x q by (simp add: abs_divide)
    finally show ?thesis using False by (simp add: adjusted_def pq a_def b_def)
  qed
qed

lemma round_half_even_of_int: "round_half_even (of_int n) = n"
  by (simp add: round_half_even_def)

lemma adjusted_less:
  assumes "x \<noteq> 0" and "\<bar>x\<bar> < 10 powi m"
  shows "adjusted x < m"
proof (rule ccontr)
  assume "\<not> adjusted x < m"
  then have "m \<le> adjusted x" by simp
  then have "(10::rat) powi m \<le> 10 powi adjusted x"
    by (intro power_int_increasing) simp_all
  with adjusted_lower [OF assms(1)] assms(2) show False by linarith
qed

lemma dec_fix_exact:
  assumes k: "\<bar>k\<bar> < 10 ^ prec" and j: "etiny \<le> j" "j + int prec \<le> emax + 1"
  shows "dec_fix (of_int k * 10 powi j) = Inr (of_int k * 10 powi j)"
proof (cases "k = 0")
  case True
  then show ?thesis by (simp add: dec_fix_def)
next
  case False
  define x :: rat where "x = of_int k * 10 powi j"
  have x0: "x \<noteq> 0" using False by (simp add: x_def)
  have "\<bar>x\<bar> = of_int \<bar>k\<bar> * 10 powi j" by (simp add: x_def abs_mult)
  also have "\<dots> < 10 ^ prec * 10 powi j"
  proof -
    have "(of_int \<bar>k\<bar> :: rat) < 10 ^ prec"
      using k by (metis of_int_less_iff of_int_numeral of_int_power)
    then show ?thesis by (simp add: mult_strict_right_mono)
  qed
  also have "\<dots> = 10 powi (int prec + j)"
    by (simp add: power_int_add)
  finally have lt: "\<bar>x\<bar> < 10 powi (int prec + j)" .
  from adjusted_less [OF x0 lt] have adj: "adjusted x < int prec + j" .
  define qe where "qe = max (adjusted x - (int prec - 1)) etiny"
  have qe: "qe \<le> j" using adj j(1) by (simp add: qe_def)
  have "x / 10 powi qe = of_int k * 10 powi (j - qe)"
    by (simp add: x_def power_int_diff)
  also have "\<dots> = of_int (k * 10 ^ nat (j - qe))"
    using qe by (simp add: power_int_def)
  finally have "round_half_even (x / 10 powi qe) = k * 10 ^ nat (j - qe)"
    by (simp only: round_half_even_of_int)
  then have "of_int (round_half_even (x / 10 powi qe)) * 10 powi qe
      = (of_int k * 10 powi (j - qe)) * 10 powi qe"
    using qe by (simp add: power_int_def)
  also have "\<dots> = x"
    by (simp add: x_def power_int_diff)
  finally have r: "of_int (round_half_even (x / 10 powi qe)) * 10 powi qe = x" .
  have "\<not> emax < adjusted x" using adj j(2) by simp
  with x0 r show ?thesis
    unfolding x_def [symmetric] by (simp add: dec_fix_def Let_def flip: qe_def)
qed

lemma py_int_of_int: "py_int (of_int k) = k"
  by (simp add: py_int_def)

lemma py_int_divide:
  assumes "0 < l"
  shows "py_int (of_int k / of_int l) = sgn k * (\<bar>k\<bar> div l)"
proof (cases "0 \<le> k")
  case True
  then have "(0::rat) \<le> of_int k / of_int l" using assms by simp
  then have "py_int (of_int k / of_int l) = \<lfloor>(of_int k / of_int l :: rat)\<rfloor>"
    by (simp add: py_int_def)
  also have "\<dots> = k div l" by (simp add: floor_divide_of_int_eq)
  also have "\<dots> = sgn k * (\<bar>k\<bar> div l)" using True by (cases "k = 0") simp_all
  finally show ?thesis .
next
  case False
  then have neg: "k < 0" by simp
  then have "(of_int k / of_int l :: rat) < 0" using assms by (simp add: divide_neg_pos)
  then have "py_int (of_int k / of_int l) = \<lceil>(of_int k / of_int l :: rat)\<rceil>"
    by (simp add: py_int_def)
  also have "\<dots> = - \<lfloor>(of_int (- k) / of_int l :: rat)\<rfloor>"
    by (simp add: ceiling_def)
  also have "\<dots> = - ((- k) div l)" by (simp only: floor_divide_of_int_eq)
  also have "\<dots> = sgn k * (\<bar>k\<bar> div l)" using neg by simp
  finally show ?thesis .
qed

lemma to_wei_scaled:
  assumes d: "0 \<le> d" and m: "0 \<le> m" "m - d \<le> 1000026" "d - m \<le> 999972"
    and k: "\<bar>k\<bar> < 10 ^ 28"
  shows "to_wei (of_int k / 10 ^ nat m) d = Inr (py_int (of_int k * 10 powi (d - m)))"
proof -
  have "(of_int k / 10 ^ nat m) * 10 ^ nat d = (of_int k :: rat) * 10 powi (d - m)"
    using d m(1) by (simp add: power_int_diff) (simp add: power_int_def)
  moreover have "dec_fix (of_int k * 10 powi (d - m)) = Inr (of_int k * 10 powi (d - m))"
    using k m(2,3) by (intro dec_fix_exact) (simp_all add: prec_def etiny_def emin_def emax_def)
  ultimately show ?thesis using d by (simp add: to_wei_def dec_mul_def)
qed

lemma from_wei_exact:
  assumes d: "0 \<le> d" "d \<le> 1000026" and k: "\<bar>k\<bar> < 10 ^ 28"
  shows "from_wei k d = Inr (of_int k / 10 ^ nat d)"
proof -
  have "(of_int k :: rat) / 10 ^ nat d = of_int k * 10 powi (- d)"
    using d(1) by (simp add: power_int_minus field_simps power_int_def)
  moreover have "dec_fix (of_int k * 10 powi (- d)) = Inr (of_int k * 10 powi (- d))"
    using k d by (intro dec_fix_exact) (simp_all add: prec_def etiny_def emin_def emax_def)
  ultimately show ?thesis using d(1) by (simp add: from_wei_def dec_div_def)
qed





section \<open>Unit conversion: round trip and precision\<close>

text \<open>
  Claim C7, as amended: for every amount \<open>x = k / 10^d\<close> with at most \<open>d\<close> fractional
  digits whose minor-unit value \<open>k\<close> has at most 28 significant digits
  (\<open>\<bar>k\<bar> < 10^28\<close>, the precision of Python's default decimal context) and every
  \<open>d\<close> from 0 to 1000026 (the exponent range of that context),
  \<^verbatim>\<open>from_wei(to_wei(x, d), d) == x\<close>: both conversions return, and the round trip gives
  back \<open>x\<close> exactly.
\<close>

theorem from_wei_to_wei_round_trip:
  assumes "0 \<le> d" and "d \<le> 1000026" and "\<bar>k\<bar> < 10 ^ 28"
  shows "round_trip (of_int k / 10 ^ nat d) d = Inr (of_int k / 10 ^ nat d)"
proof -
  have "to_wei (of_int k / 10 ^ nat d) d = Inr (py_int (of_int k * 10 powi (d - d)))"
    using assms by (intro to_wei_scaled) simp_all
  then have "to_wei (of_int k / 10 ^ nat d) d = Inr k"
    by (simp add: py_int_of_int)
  then show ?thesis
    using assms by (simp add: round_trip_def from_wei_exact)
qed

text \<open>The amount 1000.50 with six decimals: \<open>k = 1000500000\<close>.\<close>

theorem from_wei_to_wei_round_trip_witness:
  "(0::int) \<le> 6 \<and> (6::int) \<le> 1000026 \<and> \<bar>1000500000::int\<bar> < 10 ^ 28
   \<and> round_trip (100050 / 100) 6 = Inr (100050 / 100)"
  using from_wei_to_wei_round_trip [of 6 1000500000] by simp

text \<open>
  Claim C7 as stated fails beyond the context precision.  The amount
  \<open>10000000000000000000000.000001\<close> has six fractional digits and 29 significant ones;
  its product with \<open>10^6\<close> is rounded to 28 digits, and the round trip returns
  \<open>10^22\<close>.
\<close>

theorem round_trip_29_digits_counterexample:
  "((10 ^ 28 + 1) / 10 ^ 6 :: rat) * 10 ^ 6 = of_int (10 ^ 28 + 1)
   \<and> round_trip ((10 ^ 28 + 1) / 10 ^ 6) 6 = Inr (10 ^ 22)
   \<and> round_trip ((10 ^ 28 + 1) / 10 ^ 6) 6 \<noteq> Inr ((10 ^ 28 + 1) / 10 ^ 6)"
  by code_simp

text \<open>
  Claim C8, as amended: \<^verbatim>\<open>to_wei\<close> never signals a loss of precision.  For an amount
  \<open>k / 10^m\<close> with \<open>m \<ge> d\<close> fractional digits (\<open>\<bar>k\<bar> < 10^28\<close>, \<open>m - d \<le> 1000026\<close>) it
  returns the integer part of \<open>k / 10^(m - d)\<close>, truncated toward zero: the digits beyond
  the \<open>d\<close>-th are dropped silently.
\<close>

theorem to_wei_truncates:
  assumes "0 \<le> d" and "d \<le> m" and "m - d \<le> 1000026" and "\<bar>k\<bar> < 10 ^ 28"
  shows "to_wei (of_int k / 10 ^ nat m) d = Inr (sgn k * (\<bar>k\<bar> div 10 ^ nat (m - d)))"
proof -
  have "to_wei (of_int k / 10 ^ nat m) d = Inr (py_int (of_int k * 10 powi (d - m)))"
    using assms by (intro to_wei_scaled) simp_all
  moreover have "(of_int k :: rat) * 10 powi (d - m) = of_int k / of_int (10 ^ nat (m - d))"
    using assms(2) by (simp add: power_int_def field_simps)
  moreover have "py_int (of_int k / of_int (10 ^ nat (m - d))) = sgn k * (\<bar>k\<bar> div 10 ^ nat (m - d))"
    by (rule py_int_divide) simp
  ultimately show ?thesis by simp
qed

text \<open>The amount 1.0000001 with six decimals: \<open>k = 10000001\<close>, \<open>m = 7\<close>.\<close>

theorem to_wei_truncates_witness:
  "(0::int) \<le> 6 \<and> (6::int) \<le> 7 \<and> (7::int) - 6 \<le> 1000026 \<and> \<bar>10000001::int\<bar> < 10 ^ 28
   \<and> to_wei (10000001 / 10 ^ 7) 6 = Inr 1000000"
  using to_wei_truncates [of 6 7 10000001] by simp

text \<open>
  Claim C8 as stated fails: 1.0000001 is not representable with six fractional digits
  (its product with \<open>10^6\<close> is not an integer), and \<^verbatim>\<open>to_wei\<close> returns 1000000 for it
  instead of failing.
\<close>

theorem to_wei_precision_loss_counterexample:
  "of_int \<lfloor>(10000001 / 10 ^ 7 :: rat) * 10 ^ 6\<rfloor> \<noteq> (10000001 / 10 ^ 7 :: rat) * 10 ^ 6
   \<and> to_wei (10000001 / 10 ^ 7) 6 = Inr 1000000"
  by code_simp

section \<open>Table lemmas\<close>









section \<open>The withdrawal state machine\<close>




section \<open>The mobile withdrawal estimate\<close>



section \<open>The transaction pipeline\<close>

text \<open>
  Claim C9: for every transaction that was broadcast and whose wait for the receipt
  runs out (\<open>TimeExhausted\<close> after the timeout of 120 seconds),
  \<^verbatim>\<open>_sign_and_send_transaction\<close> raises \<open>TransactionFailedError\<close>: no receipt is
  returned, neither a successful nor a failed one.  The function works on the client
  alone, whose key, chain id and node are as before; it has no access to the ledger or
  to a Transaction record, so nothing is updated and nothing is marked failed.
\<close>

theorem confirmation_timeout:
  assumes "private_key self = Some key" and "key \<noteq> []"
    and "tx ''maxFeePerGas'' = None \<and> tx ''gasPrice'' = None \<longrightarrow> gas_price (w3 self) = Inr g"
    and "sign_transaction (w3 self)
           (if tx ''maxFeePerGas'' = None \<and> tx ''gasPrice'' = None
            then tx(''gasPrice'' \<mapsto> IntV g) else tx) key = Inr signed"
    and "send_raw_transaction (w3 self) signed = Inr h"
    and "wait_for_transaction_receipt (w3 self) h 120 = Inl TimeExhausted"
  shows "\<exists>self'. sign_and_send_transaction self tx
                 = (Inl (TransactionFailedError ''Transaction timed out''), self')
           \<and> submitted self'
           \<and> private_key self' = private_key self \<and> chain_id self' = chain_id self
           \<and> w3 self' = w3 self"
  using assms
  by (auto simp: sign_and_send_transaction_def Let_def submitted_def)

text \<open>The live node signs and broadcasts, and then lets the wait run out.\<close>

theorem confirmation_timeout_witness:
  "private_key (client_of web3_live) = Some ''key'' \<and> ''key'' \<noteq> []
   \<and> gas_price (w3 (client_of web3_live)) = Inr 1
   \<and> sign_transaction (w3 (client_of web3_live)) [''gasPrice'' \<mapsto> IntV 1] ''key'' = Inr ''signed''
   \<and> send_raw_transaction (w3 (client_of web3_live)) ''signed'' = Inr ''0xhash''
   \<and> wait_for_transaction_receipt (w3 (client_of web3_live)) ''0xhash'' 120 = Inl TimeExhausted
   \<and> (\<exists>self'. sign_and_send_transaction (client_of web3_live) Map.empty
                 = (Inl (TransactionFailedError ''Transaction timed out''), self')
           \<and> submitted self')"
proof -
  have k: "private_key (client_of web3_live) = Some ''key''" and k': "''key'' \<noteq> []"
    by (simp_all add: client_of_def)
  have g: "gas_price (w3 (client_of web3_live)) = Inr 1"
    by (simp add: client_of_def web3_live_def)
  have sg: "sign_transaction (w3 (client_of web3_live)) [''gasPrice'' \<mapsto> IntV 1] ''key''
              = Inr ''signed''"
    by (simp add: client_of_def web3_live_def)
  have sd: "send_raw_transaction (w3 (client_of web3_live)) ''signed'' = Inr ''0xhash''"
    by (simp add: client_of_def web3_live_def)
  have wt: "wait_for_transaction_receipt (w3 (client_of web3_live)) ''0xhash'' 120
              = Inl TimeExhausted"
    by (simp add: client_of_def web3_live_def)
  have "\<exists>self'. sign_and_send_transaction (client_of web3_live) Map.empty
                 = (Inl (TransactionFailedError ''Transaction timed out''), self')
           \<and> submitted self'
           \<and> private_key self' = private_key (client_of web3_live)
           \<and> chain_id self' = chain_id (client_of web3_live)
           \<and> w3 self' = w3 (client_of web3_live)"
    by (rule confirmation_timeout [where key = "''key''" and g = 1 and signed = "''signed''"
          and h = "''0xhash''"]) (simp_all add: k g sg sd wt)
  then have "\<exists>self'. sign_and_send_transaction (client_of web3_live) Map.empty
                 = (Inl (TransactionFailedError ''Transaction timed out''), self')
           \<and> submitted self'"
    by blast
  with k k' g sg sd wt show ?thesis by simp
qed

section \<open>Ledger arithmetic and the effect of the routes\<close>
























section \<open>Instant withdrawal\<close>







section \<open>Queued withdrawal\<close>




section \<open>Ledger updates and the chain\<close>












section \<open>Conservation\<close>


























section \<open>The allocation ledger\<close>





















end
